theory Spec2Isabelle
  imports Complex_Main
begin

section \<open>The backtester: trade simulation and statistics\<close>

text \<open>
  A shallow embedding of \<^verbatim>\<open>src/core/backtest_engine.py\<close> (class \<^verbatim>\<open>BacktestEngine\<close>) and of
  the position sizing of \<^verbatim>\<open>BaseStrategy\<close>
  (\<^verbatim>\<open>src/.history/strategies/base_strategy_20241122224034.py\<close>).

  Numbers: the source computes on floats. The model computes on \<^typ>\<open>real\<close>, so every
  statement below is about the arithmetic the code writes down, free of rounding, of
  \<^verbatim>\<open>inf\<close> and of \<^verbatim>\<open>nan\<close>. A division by zero leaves the reals (a Python float raises
  \<^verbatim>\<open>ZeroDivisionError\<close>, a numpy scalar yields \<^verbatim>\<open>inf\<close> or \<^verbatim>\<open>nan\<close>); the model makes it
  the error value \<open>ZeroDivisionError\<close>. The one place where the source itself writes
  \<^verbatim>\<open>float('inf')\<close> is the profit factor, which therefore has a type of its own.

  Timestamps (the index of the frame) are integers counting seconds; the \<^verbatim>\<open>.days\<close> of a
  difference is its floor division by 86400.
\<close>

subsection \<open>Data\<close>

datatype py_error = ZeroDivisionError | IndexError

text \<open>
  One row of the frame \<^verbatim>\<open>df\<close> that the loop of \<^verbatim>\<open>run_backtest\<close> iterates over: the
  columns of the price data, the \<^verbatim>\<open>Signal\<close> column written by the strategy, and the five
  indicator columns that lines 23-44 add. The indicator columns are rolling pandas
  statistics that are only copied into the metric snapshots of a trade; they are undefined
  (\<^verbatim>\<open>nan\<close>, here \<open>None\<close>) on the first rows of a window.
\<close>

record row =
  index :: int
  Open :: real
  High :: real
  Low :: real
  Close :: real
  Volume :: real
  Signal :: real
  Volatility :: "real option"
  RSI :: "real option"
  SMA_20 :: "real option"
  SMA_50 :: "real option"
  ATR :: "real option"

text \<open>The dictionary stored under \<^verbatim>\<open>'entry_metrics'\<close> and \<^verbatim>\<open>'exit_metrics'\<close>.\<close>

record metrics =
  volume :: real
  volatility :: "real option"
  rsi :: "real option"
  sma_20 :: "real option"
  sma_50 :: "real option"
  atr :: "real option"
  high :: real
  low :: real
  open_price :: real

definition metrics_of :: "row \<Rightarrow> metrics" where
  "metrics_of r =
     \<lparr>volume = Volume r, volatility = Volatility r, rsi = RSI r, sma_20 = SMA_20 r,
      sma_50 = SMA_50 r, atr = ATR r, high = High r, low = Low r, open_price = Open r\<rparr>"

text \<open>
  A trade is a dictionary. The keys written at entry are always present; the keys written
  by \<^verbatim>\<open>update\<close> at exit are optional, and \<^verbatim>\<open>'exit_date' in t\<close> is \<open>exit_date t \<noteq> None\<close>.
\<close>

record trade =
  entry_date :: int
  entry_price :: real
  position :: real
  profit :: real
  entry_metrics :: metrics
  exit_date :: "int option"
  exit_price :: "real option"
  exit_metrics :: "metrics option"

text \<open>
  \<^verbatim>\<open>PositionSizingMethod\<close> has four members. The attribute of the strategy is not checked,
  and \<^verbatim>\<open>get_position_size\<close> ends with \<^verbatim>\<open>return 0\<close> for any other value: \<open>UNRECOGNISED\<close>.
\<close>

datatype PositionSizingMethod = CONTRACT_SIZE | EQUITY_PERCENT | SHARES | DOLLAR_AMOUNT | UNRECOGNISED

text \<open>
  The strategy object, as far as the engine reads it: the name of its class, the attributes
  set by \<^verbatim>\<open>BaseStrategy.__init__\<close> that position sizing uses, and \<^verbatim>\<open>generate_signals\<close>, an
  opaque policy of each strategy. Here \<open>generate_signals\<close> maps the price data (of any type
  \<open>'d\<close>) to the frame with its indicator columns attached.
\<close>

record 'd strategy =
  class_name :: string
  strategy_initial_capital :: real
  capital :: real
  position_sizing_method :: PositionSizingMethod
  position_size_value :: real
  generate_signals :: "'d \<Rightarrow> row list"

text \<open>\<^verbatim>\<open>BaseStrategy.__init__\<close>: sizing defaults to 100 percent of equity.\<close>

definition BaseStrategy :: "string \<Rightarrow> ('d \<Rightarrow> row list) \<Rightarrow> real \<Rightarrow> 'd strategy" where
  "BaseStrategy name gen initial =
     \<lparr>class_name = name, strategy_initial_capital = initial, capital = initial,
      position_sizing_method = EQUITY_PERCENT, position_size_value = 100,
      generate_signals = gen\<rparr>"

definition get_position_size :: "'d strategy \<Rightarrow> real \<Rightarrow> py_error + real" where
  "get_position_size s price =
     (if position_sizing_method s = CONTRACT_SIZE then Inr (position_size_value s)
      else if position_sizing_method s = EQUITY_PERCENT then
        (if price = 0 then Inl ZeroDivisionError
         else Inr ((capital s * position_size_value s / 100) / price))
      else if position_sizing_method s = SHARES then Inr (position_size_value s)
      else if position_sizing_method s = DOLLAR_AMOUNT then
        (if price = 0 then Inl ZeroDivisionError else Inr (position_size_value s / price))
      else Inr 0)"

text \<open>
  The engine object: \<^verbatim>\<open>trade_details\<close> is a \<^verbatim>\<open>defaultdict(list)\<close> keyed by
  (ticker, strategy name), read only through \<^verbatim>\<open>get\<close>, which never inserts.
\<close>

record 'd engine =
  initial_capital :: real
  trade_details :: "string \<times> string \<rightharpoonup> trade list"
  price_data :: "string \<rightharpoonup> 'd"

definition BacktestEngine :: "real \<Rightarrow> 'd engine" where
  "BacktestEngine initial =
     \<lparr>initial_capital = initial, trade_details = Map.empty, price_data = Map.empty\<rparr>"

subsection \<open>The simulation loop of \<^verbatim>\<open>run_backtest\<close>\<close>

text \<open>The local variables of \<^verbatim>\<open>run_backtest\<close> (lines 49-52).\<close>

record locals =
  cur_position :: real
  cur_capital :: real
  trades :: "trade list"
  cur_entry_price :: real

definition init_locals :: "'d engine \<Rightarrow> locals" where
  "init_locals e =
     \<lparr>cur_position = 0, cur_capital = initial_capital e, trades = [], cur_entry_price = 0\<rparr>"

text \<open>The dictionary appended at lines 62-78, for the row \<open>r\<close> and the quantity \<open>q\<close>.\<close>

definition new_trade :: "row \<Rightarrow> real \<Rightarrow> trade" where
  "new_trade r q =
     \<lparr>entry_date = index r, entry_price = Close r, position = q, profit = 0,
      entry_metrics = metrics_of r, exit_date = None, exit_price = None,
      exit_metrics = None\<rparr>"

text \<open>
  \<^verbatim>\<open>trades[-1].update({...})\<close> with the exit keys; \<^verbatim>\<open>trades[-1]\<close> raises \<^verbatim>\<open>IndexError\<close> on
  an empty list.
\<close>

definition closed_with :: "trade \<Rightarrow> row \<Rightarrow> real \<Rightarrow> real \<Rightarrow> trade" where
  "closed_with t r x p =
     t\<lparr>profit := p, exit_date := Some (index r), exit_price := Some x,
       exit_metrics := Some (metrics_of r)\<rparr>"

definition update_last :: "trade list \<Rightarrow> row \<Rightarrow> real \<Rightarrow> real \<Rightarrow> py_error + trade list" where
  "update_last ts r x p =
     (if ts = [] then Inl IndexError
      else Inr (butlast ts @ [closed_with (last ts) r x p]))"

text \<open>
  The close of a position at row \<open>r\<close>: lines 81-102 in the loop, and lines 106-125 after
  it (there \<open>r\<close> is the last row, and \<^verbatim>\<open>position\<close> is not reset).
\<close>

definition close_at :: "locals \<Rightarrow> row \<Rightarrow> py_error + locals" where
  "close_at st r =
     (let exit_p = Close r;
          trade_profit = (exit_p - cur_entry_price st) * cur_position st
      in case update_last (trades st) r exit_p trade_profit of
           Inl err \<Rightarrow> Inl err
         | Inr ts \<Rightarrow> Inr (st\<lparr>cur_capital := cur_capital st + trade_profit, trades := ts\<rparr>))"

text \<open>One iteration of the loop (lines 59-102). The progress signal is not modelled.\<close>

definition step :: "'d strategy \<Rightarrow> locals \<Rightarrow> row \<Rightarrow> py_error + locals" where
  "step s st r =
     (if Signal r = 1 \<and> cur_position st = 0 then
        (case get_position_size s (Close r) of
           Inl err \<Rightarrow> Inl err
         | Inr q \<Rightarrow>
             Inr (st\<lparr>cur_position := q, cur_entry_price := Close r,
                     trades := trades st @ [new_trade r q]\<rparr>))
      else if Signal r = - 1 \<and> cur_position st \<noteq> 0 then
        (case close_at st r of
           Inl err \<Rightarrow> Inl err
         | Inr st' \<Rightarrow> Inr (st'\<lparr>cur_position := 0\<rparr>))
      else Inr st)"

fun run_loop :: "'d strategy \<Rightarrow> locals \<Rightarrow> row list \<Rightarrow> py_error + locals" where
  "run_loop s st [] = Inr st"
| "run_loop s st (r # rs) =
     (case step s st r of Inl err \<Rightarrow> Inl err | Inr st' \<Rightarrow> run_loop s st' rs)"

text \<open>
  Lines 104-125: close any open position at the end. \<^verbatim>\<open>df.iloc[-1]\<close> raises
  \<^verbatim>\<open>IndexError\<close> on an empty frame.
\<close>

definition close_open_position :: "locals \<Rightarrow> row list \<Rightarrow> py_error + locals" where
  "close_open_position st df =
     (if cur_position st \<noteq> 0 then
        (if df = [] then Inl IndexError else close_at st (last df))
      else Inr st)"

text \<open>Lines 49-125: the ledger and the capital that \<^verbatim>\<open>run_backtest\<close> ends with.\<close>

definition simulate :: "'d engine \<Rightarrow> 'd strategy \<Rightarrow> row list \<Rightarrow> py_error + locals" where
  "simulate e s df =
     (case run_loop s (init_locals e) df of
        Inl err \<Rightarrow> Inl err
      | Inr st \<Rightarrow> close_open_position st df)"

subsection \<open>Statistics\<close>

text \<open>The profit factor is a float that the source sets to \<^verbatim>\<open>float('inf')\<close> in one case.\<close>

datatype pyfloat = Finite real | Infinity

record report =
  net_profit :: real
  total_trades :: nat
  win_rate :: real
  profit_factor :: pyfloat
  max_drawdown :: real
  avg_trade :: real
  avg_bars_in_trade :: real

text \<open>The dictionary returned at lines 148-156 and again at lines 161-169.\<close>

definition zero_report :: report where
  "zero_report =
     \<lparr>net_profit = 0, total_trades = 0, win_rate = 0, profit_factor = Finite 0,
      max_drawdown = 0, avg_trade = 0, avg_bars_in_trade = 0\<rparr>"

text \<open>Lines 191-196: the running total of profits, one point per trade.\<close>

fun equity_curve :: "real \<Rightarrow> trade list \<Rightarrow> real list" where
  "equity_curve current_equity [] = []"
| "equity_curve current_equity (t # ts) =
     (current_equity + profit t) # equity_curve (current_equity + profit t) ts"

text \<open>Lines 201-205: the walk over the equity curve, with the running peak.\<close>

fun drawdown_walk :: "real \<Rightarrow> real \<Rightarrow> real list \<Rightarrow> py_error + real" where
  "drawdown_walk max_dd peak [] = Inr max_dd"
| "drawdown_walk max_dd peak (equity # rest) =
     (let peak' = (if equity > peak then equity else peak)
      in if peak' = 0 then Inl ZeroDivisionError
         else drawdown_walk (max max_dd ((peak' - equity) / peak' * 100)) peak' rest)"

definition calculate_max_drawdown :: "'d engine \<Rightarrow> trade list \<Rightarrow> py_error + real" where
  "calculate_max_drawdown e ts =
     (if ts = [] then Inr 0
      else drawdown_walk 0 (initial_capital e) (equity_curve (initial_capital e) ts))"

definition closed_trades :: "trade list \<Rightarrow> trade list" where
  "closed_trades ts = filter (\<lambda>t. exit_date t \<noteq> None) ts"

definition winning_trades :: "trade list \<Rightarrow> trade list" where
  "winning_trades ts = filter (\<lambda>t. profit t > 0) (closed_trades ts)"

definition losing_trades :: "trade list \<Rightarrow> trade list" where
  "losing_trades ts = filter (\<lambda>t. profit t \<le> 0) (closed_trades ts)"

definition gross_profit :: "trade list \<Rightarrow> real" where
  "gross_profit ts = sum_list (map profit (winning_trades ts))"

definition gross_loss :: "trade list \<Rightarrow> real" where
  "gross_loss ts =
     (if losing_trades ts \<noteq> [] then \<bar>sum_list (map profit (losing_trades ts))\<bar> else 1)"

text \<open>
  \<^verbatim>\<open>(t['exit_date'] - t['entry_date']).days\<close>; the key is present in every closed trade,
  so the second case is never reached from \<open>closed_trades\<close>.
\<close>

definition days_in_trade :: "trade \<Rightarrow> int" where
  "days_in_trade t =
     (case exit_date t of Some d \<Rightarrow> (d - entry_date t) div 86400 | None \<Rightarrow> 0)"

definition calculate_statistics :: "'d engine \<Rightarrow> trade list \<Rightarrow> real \<Rightarrow> py_error + report" where
  "calculate_statistics e ts final_capital =
     (if ts = [] then Inr zero_report
      else if closed_trades ts = [] then Inr zero_report
      else
        (case calculate_max_drawdown e (closed_trades ts) of
           Inl err \<Rightarrow> Inl err
         | Inr dd \<Rightarrow>
             Inr \<lparr>net_profit = final_capital - initial_capital e,
                  total_trades = length (closed_trades ts),
                  win_rate =
                    real (length (winning_trades ts)) / real (length (closed_trades ts)) * 100,
                  profit_factor =
                    (if gross_loss ts \<noteq> 0 then Finite (gross_profit ts / gross_loss ts)
                     else Infinity),
                  max_drawdown = dd,
                  avg_trade =
                    (final_capital - initial_capital e) / real (length (closed_trades ts)),
                  avg_bars_in_trade =
                    real_of_int (sum_list (map days_in_trade (closed_trades ts)))
                      / real (length (closed_trades ts))\<rparr>))"

subsection \<open>\<^verbatim>\<open>run_backtest\<close> and \<^verbatim>\<open>get_trade_details\<close>\<close>

text \<open>
  The result is the returned report or the raised error, together with the engine as the
  call leaves it: \<^verbatim>\<open>price_data\<close> is written before anything can fail,
  \<^verbatim>\<open>trade_details\<close> only after the simulation.
\<close>

definition run_backtest ::
  "'d engine \<Rightarrow> 'd \<Rightarrow> 'd strategy \<Rightarrow> string \<Rightarrow> (py_error + report) \<times> 'd engine" where
  "run_backtest e data s ticker =
     (let e1 = e\<lparr>price_data := (price_data e)(ticker \<mapsto> data)\<rparr>;
          df = generate_signals s data
      in case simulate e1 s df of
           Inl err \<Rightarrow> (Inl err, e1)
         | Inr st \<Rightarrow>
             (let e2 = e1\<lparr>trade_details :=
                            (trade_details e1)((ticker, class_name s) \<mapsto> trades st)\<rparr>
              in (calculate_statistics e2 (trades st) (cur_capital st), e2)))"

definition get_trade_details :: "'d engine \<Rightarrow> string \<Rightarrow> string \<Rightarrow> trade list" where
  "get_trade_details e ticker strategy_name =
     (case trade_details e (ticker, strategy_name) of None \<Rightarrow> [] | Some ts \<Rightarrow> ts)"

subsection \<open>Predicates on the state of a run\<close>

text \<open>
  While the position is not zero, the locals describe the last trade of the ledger, and that
  trade is open.
\<close>

definition tracks_last :: "locals \<Rightarrow> bool" where
  "tracks_last st =
     (cur_position st = 0 \<or>
      (trades st \<noteq> [] \<and> position (last (trades st)) = cur_position st \<and>
       entry_price (last (trades st)) = cur_entry_price st \<and>
       exit_date (last (trades st)) = None \<and> exit_price (last (trades st)) = None))"

text \<open>
  The profit a trade records: the product of the price difference and the quantity once the
  exit keys are set, and 0 (the value written at entry) before.
\<close>

definition profit_exact :: "trade \<Rightarrow> bool" where
  "profit_exact t =
     (case exit_price t of
        Some x \<Rightarrow> exit_date t \<noteq> None \<and> profit t = (x - entry_price t) * position t
      | None \<Rightarrow> exit_date t = None \<and> profit t = 0)"

text \<open>The capital is the starting capital \<open>c0\<close> plus the profits recorded in the ledger.\<close>

definition capital_ok :: "real \<Rightarrow> locals \<Rightarrow> bool" where
  "capital_ok c0 st = (cur_capital st = c0 + sum_list (map profit (trades st)))"

text \<open>The keys of a trade that are written at entry.\<close>

definition entry_fields :: "trade \<Rightarrow> int \<times> real \<times> real \<times> metrics" where
  "entry_fields t = (entry_date t, entry_price t, position t, entry_metrics t)"

text \<open>A trade with both exit fields set.\<close>

definition is_closed :: "trade \<Rightarrow> bool" where
  "is_closed t = (exit_date t \<noteq> None \<and> exit_price t \<noteq> None)"

text \<open>At most the last trade of the ledger is open, and only while the position is not zero.\<close>

definition only_last_open :: "locals \<Rightarrow> bool" where
  "only_last_open st =
     (if cur_position st = 0 then list_all is_closed (trades st)
      else trades st \<noteq> [] \<and> list_all is_closed (butlast (trades st)))"

subsection \<open>Example inputs\<close>

text \<open>
  A daily bar whose prices all equal the close \<open>c\<close>, with signal \<open>sig\<close> and no indicator
  value yet.
\<close>

definition bar_at :: "int \<Rightarrow> real \<Rightarrow> real \<Rightarrow> row" where
  "bar_at day c sig =
     \<lparr>index = day * 86400, Open = c, High = c, Low = c, Close = c, Volume = 0, Signal = sig,
      Volatility = None, RSI = None, SMA_20 = None, SMA_50 = None, ATR = None\<rparr>"

text \<open>A strategy whose \<^verbatim>\<open>generate_signals\<close> returns the frame \<open>df\<close>.\<close>

definition fixed_frame :: "row list \<Rightarrow> unit \<Rightarrow> row list" where
  "fixed_frame df = (\<lambda>_. df)"

text \<open>
  Enter at 100, exit at 110, enter again at 110, and no further signal: the second trade is
  closed at the last bar, at 121.
\<close>

definition two_trades :: "row list" where
  "two_trades = [bar_at 0 100 1, bar_at 1 110 (- 1), bar_at 2 110 1, bar_at 3 121 0]"

text \<open>The locals after the first bar of \<open>two_trades\<close>: a position of 10 entered at 100.\<close>

definition in_position :: locals where
  "in_position =
     \<lparr>cur_position = 10, cur_capital = 1000, trades = [new_trade (bar_at 0 100 1) 10],
      cur_entry_price = 100\<rparr>"

subsection \<open>The drawdown in the words of the specification\<close>

text \<open>
  The specification describes \<^verbatim>\<open>max_drawdown\<close> as a walk over the equity curve that tracks
  a running peak starting at the initial capital \<open>c\<close>, takes the drawdown
  \<open>(peak - equity) / peak * 100\<close> at each point, and returns the maximum, 0 for an empty
  ledger. These three definitions follow those words, for the equity curve \<open>es\<close>; they are
  compared with \<open>drawdown_walk\<close> below.
\<close>

definition running_peak :: "real \<Rightarrow> real list \<Rightarrow> nat \<Rightarrow> real" where
  "running_peak c es i = fold max (take (Suc i) es) c"

definition drawdown_at :: "real \<Rightarrow> real list \<Rightarrow> nat \<Rightarrow> real" where
  "drawdown_at c es i = (running_peak c es i - es ! i) / running_peak c es i * 100"

definition max_drawdown_spec :: "real \<Rightarrow> real list \<Rightarrow> real" where
  "max_drawdown_spec c es = fold max (map (drawdown_at c es) [0..<length es]) 0"

subsection \<open>Further example inputs\<close>

text \<open>
  Three closed trades of 10 units with profits 100, -200 and 300: from a capital of 1000 the
  equity curve is 1100, 900, 1200.
\<close>

definition scenario_E :: "trade list" where
  "scenario_E =
     [closed_with (new_trade (bar_at 0 100 1) 10) (bar_at 1 110 (- 1)) 110 100,
      closed_with (new_trade (bar_at 2 110 1) 10) (bar_at 3 90 (- 1)) 90 (- 200),
      closed_with (new_trade (bar_at 4 90 1) 10) (bar_at 5 120 (- 1)) 120 300]"

text \<open>Two round trips, 100 to 105 and 100 to 110: with 10 shares, profits of 50 and 100.\<close>

definition scenario_D :: "row list" where
  "scenario_D = [bar_at 0 100 1, bar_at 1 105 (- 1), bar_at 2 100 1, bar_at 3 110 (- 1)]"

text \<open>A round trip that enters and exits at the same close.\<close>

definition break_even :: "row list" where
  "break_even = [bar_at 0 100 1, bar_at 1 100 (- 1)]"

text \<open>An Enter signal, a bar without signal, and an Exit signal.\<close>

definition never_sized :: "row list" where
  "never_sized = [bar_at 0 100 1, bar_at 1 105 0, bar_at 2 110 (- 1)]"

text \<open>A strategy that buys 10 shares at every entry.\<close>

definition ten_shares :: "row list \<Rightarrow> unit strategy" where
  "ten_shares df =
     (BaseStrategy ''TenShares'' (fixed_frame df) 1000)
       \<lparr>position_sizing_method := SHARES, position_size_value := 10\<rparr>"

text \<open>
  A strategy that sizes every entry at 0 percent of its equity, a value the position size
  control of the interface allows (its range starts at 0).
\<close>

definition zero_percent :: "row list \<Rightarrow> unit strategy" where
  "zero_percent df =
     (BaseStrategy ''ZeroPercent'' (fixed_frame df) 1000)\<lparr>position_size_value := 0\<rparr>"

section \<open>Properties\<close>

subsection \<open>The results of a close and of a step\<close>

lemma close_at_Inr:
  "close_at st r = Inr st' \<longleftrightarrow>
     trades st \<noteq> [] \<and>
     st' = st\<lparr>cur_capital := cur_capital st + (Close r - cur_entry_price st) * cur_position st,
              trades := butlast (trades st) @
                [closed_with (last (trades st)) r (Close r)
                   ((Close r - cur_entry_price st) * cur_position st)]\<rparr>"
  by (auto simp: close_at_def update_last_def Let_def)

lemma step_Inr_cases:
  assumes "step s st r = Inr st'"
  obtains
    (enter) q where "Signal r = 1" "cur_position st = 0" "get_position_size s (Close r) = Inr q"
      "st' = st\<lparr>cur_position := q, cur_entry_price := Close r,
                 trades := trades st @ [new_trade r q]\<rparr>"
  | (exit) "Signal r = - 1" "cur_position st \<noteq> 0" "trades st \<noteq> []"
      "st' = st\<lparr>cur_capital := cur_capital st + (Close r - cur_entry_price st) * cur_position st,
                 trades := butlast (trades st) @
                   [closed_with (last (trades st)) r (Close r)
                      ((Close r - cur_entry_price st) * cur_position st)],
                 cur_position := 0\<rparr>"
  | (hold) "\<not> (Signal r = 1 \<and> cur_position st = 0)" "\<not> (Signal r = - 1 \<and> cur_position st \<noteq> 0)"
      "st' = st"
proof (cases "Signal r = 1 \<and> cur_position st = 0")
  case True
  with assms obtain q where "get_position_size s (Close r) = Inr q"
    and "st' = st\<lparr>cur_position := q, cur_entry_price := Close r,
                 trades := trades st @ [new_trade r q]\<rparr>"
    by (auto simp: step_def split: sum.splits)
  with True show ?thesis using enter by blast
next
  case False
  show ?thesis
  proof (cases "Signal r = - 1 \<and> cur_position st \<noteq> 0")
    case True
    with False assms obtain st1 where c: "close_at st r = Inr st1" and "st' = st1\<lparr>cur_position := 0\<rparr>"
      by (auto simp: step_def split: sum.splits)
    with True show ?thesis using exit by (auto simp: close_at_Inr)
  next
    case F2: False
    with False assms have "st' = st" by (auto simp: step_def)
    with False F2 show ?thesis using hold by blast
  qed
qed

lemma close_open_position_Inr_cases:
  assumes "close_open_position st df = Inr st'"
  obtains (flat) "cur_position st = 0" "st' = st"
  | (forced) "cur_position st \<noteq> 0" "df \<noteq> []" "trades st \<noteq> []"
      "st' = st\<lparr>cur_capital := cur_capital st + (Close (last df) - cur_entry_price st) * cur_position st,
                 trades := butlast (trades st) @
                   [closed_with (last (trades st)) (last df) (Close (last df))
                      ((Close (last df) - cur_entry_price st) * cur_position st)]\<rparr>"
  using assms by (auto simp: close_open_position_def close_at_Inr split: if_splits)

lemma simulate_Inr:
  "simulate e s df = Inr st \<longleftrightarrow>
     (\<exists>st1. run_loop s (init_locals e) df = Inr st1 \<and> close_open_position st1 df = Inr st)"
  by (auto simp: simulate_def split: sum.splits)

subsection \<open>The locals follow the last trade\<close>

lemma tracks_last_init: "tracks_last (init_locals e)"
  by (simp add: tracks_last_def init_locals_def)

lemma step_tracks_last:
  assumes "step s st r = Inr st'" and "tracks_last st"
  shows "tracks_last st'"
  using assms(1)
proof (cases rule: step_Inr_cases)
  case (enter q)
  then show ?thesis by (simp add: tracks_last_def new_trade_def)
next
  case exit
  then show ?thesis by (simp add: tracks_last_def)
next
  case hold
  with assms(2) show ?thesis by simp
qed

lemma run_loop_tracks_last:
  "run_loop s st df = Inr st' \<Longrightarrow> tracks_last st \<Longrightarrow> tracks_last st'"
proof (induction df arbitrary: st)
  case Nil
  then show ?case by simp
next
  case (Cons r rs)
  then show ?case
    by (auto split: sum.splits dest: step_tracks_last)
qed

subsection \<open>Recorded profits\<close>

lemma profit_exact_new_trade: "profit_exact (new_trade r q)"
  by (simp add: profit_exact_def new_trade_def)

lemma profit_exact_closed_with:
  "profit_exact (closed_with t r x ((x - entry_price t) * position t))"
  by (simp add: profit_exact_def closed_with_def)

lemma step_profit_exact:
  assumes "step s st r = Inr st'" and "tracks_last st" and "\<forall>t \<in> set (trades st). profit_exact t"
  shows "\<forall>t \<in> set (trades st'). profit_exact t"
  using assms(1)
proof (cases rule: step_Inr_cases)
  case (enter q)
  with assms(3) show ?thesis by (auto simp: profit_exact_new_trade)
next
  case exit
  with assms(2) have eq: "cur_entry_price st = entry_price (last (trades st))"
      "cur_position st = position (last (trades st))"
    by (auto simp: tracks_last_def)
  from assms(3) have "\<forall>t \<in> set (butlast (trades st)). profit_exact t"
    by (auto dest: in_set_butlastD)
  with exit eq show ?thesis by (auto simp: profit_exact_closed_with)
next
  case hold
  with assms(3) show ?thesis by simp
qed

lemma run_loop_profit_exact:
  "run_loop s st df = Inr st' \<Longrightarrow> tracks_last st \<Longrightarrow> \<forall>t \<in> set (trades st). profit_exact t
     \<Longrightarrow> \<forall>t \<in> set (trades st'). profit_exact t"
proof (induction df arbitrary: st)
  case Nil
  then show ?case by simp
next
  case (Cons r rs)
  from Cons.prems(1) obtain st1 where s1: "step s st r = Inr st1" and r1: "run_loop s st1 rs = Inr st'"
    by (auto split: sum.splits)
  from s1 Cons.prems(2) have "tracks_last st1" by (rule step_tracks_last)
  moreover from s1 Cons.prems(2,3) have "\<forall>t \<in> set (trades st1). profit_exact t"
    by (rule step_profit_exact)
  ultimately show ?case using Cons.IH r1 by blast
qed

lemma close_open_position_profit_exact:
  assumes "close_open_position st df = Inr st'" and "tracks_last st"
    and "\<forall>t \<in> set (trades st). profit_exact t"
  shows "\<forall>t \<in> set (trades st'). profit_exact t"
  using assms(1)
proof (cases rule: close_open_position_Inr_cases)
  case flat
  with assms(3) show ?thesis by simp
next
  case forced
  with assms(2) have eq: "cur_entry_price st = entry_price (last (trades st))"
      "cur_position st = position (last (trades st))"
    by (auto simp: tracks_last_def)
  from assms(3) have "\<forall>t \<in> set (butlast (trades st)). profit_exact t"
    by (auto dest: in_set_butlastD)
  with forced eq show ?thesis by (auto simp: profit_exact_closed_with)
qed

subsection \<open>The capital and the ledger\<close>

lemma sum_profit_butlast:
  assumes "ts \<noteq> []"
  shows "sum_list (map profit (butlast ts)) = sum_list (map profit ts) - profit (last ts)"
proof -
  from assms have "map profit ts = map profit (butlast ts) @ [profit (last ts)]"
    by (metis append_butlast_last_id list.simps(8,9) map_append)
  then show ?thesis by simp
qed

lemma step_capital_ok:
  assumes "step s st r = Inr st'" and "tracks_last st"
    and "\<forall>t \<in> set (trades st). profit_exact t" and "capital_ok c0 st"
  shows "capital_ok c0 st'"
  using assms(1)
proof (cases rule: step_Inr_cases)
  case (enter q)
  with assms(4) show ?thesis by (simp add: capital_ok_def new_trade_def)
next
  case exit
  with assms(2) have open_last: "exit_price (last (trades st)) = None"
    by (auto simp: tracks_last_def)
  from exit(3) have "last (trades st) \<in> set (trades st)" by simp
  with assms(3) open_last have "profit (last (trades st)) = 0"
    by (auto simp: profit_exact_def)
  with exit assms(4) show ?thesis
    by (simp add: capital_ok_def sum_profit_butlast closed_with_def)
next
  case hold
  with assms(4) show ?thesis by simp
qed

lemma run_loop_capital_ok:
  "run_loop s st df = Inr st' \<Longrightarrow> tracks_last st \<Longrightarrow> \<forall>t \<in> set (trades st). profit_exact t
     \<Longrightarrow> capital_ok c0 st \<Longrightarrow> capital_ok c0 st'"
proof (induction df arbitrary: st)
  case Nil
  then show ?case by simp
next
  case (Cons r rs)
  from Cons.prems(1) obtain st1 where s1: "step s st r = Inr st1" and r1: "run_loop s st1 rs = Inr st'"
    by (auto split: sum.splits)
  from s1 Cons.prems(2) have "tracks_last st1" by (rule step_tracks_last)
  moreover from s1 Cons.prems(2,3) have "\<forall>t \<in> set (trades st1). profit_exact t"
    by (rule step_profit_exact)
  moreover from s1 Cons.prems(2,3,4) have "capital_ok c0 st1"
    by (rule step_capital_ok)
  ultimately show ?case using Cons.IH r1 by blast
qed

lemma close_open_position_capital_ok:
  assumes "close_open_position st df = Inr st'" and "tracks_last st"
    and "\<forall>t \<in> set (trades st). profit_exact t" and "capital_ok c0 st"
  shows "capital_ok c0 st'"
  using assms(1)
proof (cases rule: close_open_position_Inr_cases)
  case flat
  with assms(4) show ?thesis by simp
next
  case forced
  with assms(2) have open_last: "exit_price (last (trades st)) = None"
    by (auto simp: tracks_last_def)
  from forced(3) have "last (trades st) \<in> set (trades st)" by simp
  with assms(3) open_last have "profit (last (trades st)) = 0"
    by (auto simp: profit_exact_def)
  with forced assms(4) show ?thesis
    by (simp add: capital_ok_def sum_profit_butlast closed_with_def)
qed

lemma simulate_invariants:
  assumes "simulate e s df = Inr st"
  shows "\<forall>t \<in> set (trades st). profit_exact t" and "capital_ok (initial_capital e) st"
proof -
  from assms obtain st1 where l: "run_loop s (init_locals e) df = Inr st1"
    and c: "close_open_position st1 df = Inr st"
    by (auto simp: simulate_Inr)
  have i0: "tracks_last (init_locals e)" by (rule tracks_last_init)
  have p0: "\<forall>t \<in> set (trades (init_locals e)). profit_exact t" by (simp add: init_locals_def)
  have c0: "capital_ok (initial_capital e) (init_locals e)"
    by (simp add: capital_ok_def init_locals_def)
  from l i0 have i1: "tracks_last st1" by (rule run_loop_tracks_last)
  from l i0 p0 have p1: "\<forall>t \<in> set (trades st1). profit_exact t" by (rule run_loop_profit_exact)
  from l i0 p0 c0 have c1: "capital_ok (initial_capital e) st1" by (rule run_loop_capital_ok)
  from c i1 p1 show "\<forall>t \<in> set (trades st). profit_exact t"
    by (rule close_open_position_profit_exact)
  from c i1 p1 c1 show "capital_ok (initial_capital e) st"
    by (rule close_open_position_capital_ok)
qed

subsection \<open>When the simulation returns\<close>

lemma get_position_size_defined:
  "price \<noteq> 0 \<Longrightarrow> \<exists>q. get_position_size s price = Inr q"
  by (simp add: get_position_size_def)

lemma step_defined:
  assumes "Close r \<noteq> 0" and "tracks_last st"
  shows "\<exists>st'. step s st r = Inr st'"
proof -
  from assms(1) obtain q where "get_position_size s (Close r) = Inr q"
    using get_position_size_defined by blast
  moreover have "cur_position st \<noteq> 0 \<Longrightarrow> \<exists>st1. close_at st r = Inr st1"
    using assms(2) by (auto simp: close_at_Inr tracks_last_def)
  ultimately show ?thesis
    by (auto simp: step_def)
qed

lemma run_loop_defined:
  "\<forall>r \<in> set df. Close r \<noteq> 0 \<Longrightarrow> tracks_last st \<Longrightarrow> \<exists>st'. run_loop s st df = Inr st'"
proof (induction df arbitrary: st)
  case Nil
  then show ?case by simp
next
  case (Cons r rs)
  then obtain st1 where s1: "step s st r = Inr st1"
    using step_defined [of r st s] by auto
  with Cons.prems(2) have "tracks_last st1" by (auto dest: step_tracks_last)
  with Cons.IH Cons.prems(1) obtain st' where "run_loop s st1 rs = Inr st'" by auto
  with s1 show ?case by simp
qed

lemma simulate_defined:
  assumes "\<forall>r \<in> set df. Close r \<noteq> 0"
  shows "\<exists>st. simulate e s df = Inr st"
proof -
  from assms obtain st1 where l: "run_loop s (init_locals e) df = Inr st1"
    using run_loop_defined [OF _ tracks_last_init] by blast
  then have t1: "tracks_last st1" using tracks_last_init by (rule run_loop_tracks_last)
  have "cur_position st1 \<noteq> 0 \<Longrightarrow> df \<noteq> []"
    using l by (auto simp: init_locals_def)
  with t1 have "\<exists>st. close_open_position st1 df = Inr st"
    by (auto simp: close_open_position_def close_at_Inr tracks_last_def)
  with l show ?thesis by (auto simp: simulate_Inr)
qed

subsection \<open>Entry fields are kept\<close>

lemma entry_fields_closed_with: "entry_fields (closed_with t r x p) = entry_fields t"
  by (simp add: entry_fields_def closed_with_def)

lemma map_entry_fields_replace_last:
  assumes "ts \<noteq> []"
  shows "map entry_fields (butlast ts @ [closed_with (last ts) r x p]) = map entry_fields ts"
proof -
  have "map entry_fields (butlast ts @ [closed_with (last ts) r x p])
          = map entry_fields (butlast ts @ [last ts])"
    by (simp add: entry_fields_closed_with)
  with assms show ?thesis by simp
qed

lemma step_keeps_entries:
  assumes "step s st r = Inr st'"
  shows "map entry_fields (take (length (trades st)) (trades st')) = map entry_fields (trades st) \<and>
         length (trades st) \<le> length (trades st') \<and>
         (length (trades st) < length (trades st') \<longrightarrow> Signal r = 1 \<and> cur_position st = 0)"
  using assms
proof (cases rule: step_Inr_cases)
  case (enter q)
  then show ?thesis by simp
next
  case exit
  let ?ts' = "butlast (trades st) @
                [closed_with (last (trades st)) r (Close r)
                   ((Close r - cur_entry_price st) * cur_position st)]"
  from exit(3) have len: "length ?ts' = length (trades st)"
    by (simp add: Suc_pred)
  then have "take (length (trades st)) ?ts' = ?ts'"
    by (metis order_refl take_all)
  moreover from exit(3) have "map entry_fields ?ts' = map entry_fields (trades st)"
    by (rule map_entry_fields_replace_last)
  moreover from exit(4) have "trades st' = ?ts'" by simp
  ultimately show ?thesis using len by simp
next
  case hold
  then show ?thesis by simp
qed

lemma step_enter_while_open: "Signal r = 1 \<Longrightarrow> cur_position st \<noteq> 0 \<Longrightarrow> step s st r = Inr st"
  by (simp add: step_def)

lemma step_exit_while_flat: "Signal r = - 1 \<Longrightarrow> cur_position st = 0 \<Longrightarrow> step s st r = Inr st"
  by (simp add: step_def)

subsection \<open>Open trades when every entry has a size\<close>

lemma step_only_last_open:
  assumes "step s st r = Inr st'" and "only_last_open st"
    and "Signal r = 1 \<Longrightarrow> get_position_size s (Close r) \<noteq> Inr 0"
  shows "only_last_open st'"
  using assms(1)
proof (cases rule: step_Inr_cases)
  case (enter q)
  with assms(3) have "q \<noteq> 0" by auto
  with enter assms(2) show ?thesis by (simp add: only_last_open_def)
next
  case exit
  with assms(2) show ?thesis by (simp add: only_last_open_def is_closed_def closed_with_def)
next
  case hold
  with assms(2) show ?thesis by simp
qed

lemma run_loop_only_last_open:
  "run_loop s st df = Inr st' \<Longrightarrow> only_last_open st \<Longrightarrow>
   \<forall>r \<in> set df. Signal r = 1 \<longrightarrow> get_position_size s (Close r) \<noteq> Inr 0 \<Longrightarrow>
   only_last_open st'"
proof (induction df arbitrary: st)
  case Nil
  then show ?case by simp
next
  case (Cons r rs)
  from Cons.prems(1) obtain st1 where s1: "step s st r = Inr st1" and r1: "run_loop s st1 rs = Inr st'"
    by (auto split: sum.splits)
  from s1 Cons.prems(2,3) have "only_last_open st1" by (auto intro: step_only_last_open)
  with Cons.IH r1 Cons.prems(3) show ?case by auto
qed

lemma all_closed_if_sized_nonzero:
  assumes "simulate e s df = Inr st"
    and "\<forall>r \<in> set df. Signal r = 1 \<longrightarrow> get_position_size s (Close r) \<noteq> Inr 0"
  shows "list_all is_closed (trades st)"
proof -
  from assms(1) obtain st1 where l: "run_loop s (init_locals e) df = Inr st1"
    and c: "close_open_position st1 df = Inr st"
    by (auto simp: simulate_Inr)
  have "only_last_open (init_locals e)" by (simp add: only_last_open_def init_locals_def)
  with l assms(2) have o1: "only_last_open st1" by (auto intro: run_loop_only_last_open)
  from c show ?thesis
  proof (cases rule: close_open_position_Inr_cases)
    case flat
    with o1 show ?thesis by (simp add: only_last_open_def)
  next
    case forced
    with o1 show ?thesis by (simp add: only_last_open_def is_closed_def closed_with_def)
  qed
qed

subsection \<open>Evaluating the examples\<close>

lemmas run_defs =
  simulate_def init_locals_def BacktestEngine_def BaseStrategy_def fixed_frame_def
  bar_at_def step_def get_position_size_def new_trade_def close_at_def update_last_def
  closed_with_def close_open_position_def metrics_of_def Let_def

lemma simulate_two_trades:
  "simulate (BacktestEngine 1000) (BaseStrategy ''S'' (fixed_frame two_trades) 1000) two_trades =
     Inr \<lparr>cur_position = 100 / 11, cur_capital = 1200,
          trades = [closed_with (new_trade (bar_at 0 100 1) 10) (bar_at 1 110 (- 1)) 110 100,
                    closed_with (new_trade (bar_at 2 110 1) (100 / 11)) (bar_at 3 121 0) 121 100],
          cur_entry_price = 110\<rparr>"
  by (simp add: run_defs two_trades_def)

subsection \<open>The profit of a trade and the capital\<close>

text \<open>
  Claim C4. In the ledger of every run that returns, a trade with an exit price \<open>x\<close> records
  the profit \<open>(x - entry_price) * position\<close>, and the capital the run ends with is the initial
  capital plus the profits recorded in the ledger. Every close, by an exit signal or at the end
  of the series, goes through \<open>close_at\<close>, which adds to the capital exactly the profit it
  writes into the last trade.
\<close>

theorem profit_is_exact:
  assumes "simulate e s df = Inr st"
  shows "(\<forall>t \<in> set (trades st). \<forall>x. exit_price t = Some x \<longrightarrow>
            profit t = (x - entry_price t) * position t) \<and>
         cur_capital st = initial_capital e + sum_list (map profit (trades st)) \<and>
         (\<forall>st0 r st1. close_at st0 r = Inr st1 \<longrightarrow>
            cur_capital st1 = cur_capital st0 + profit (last (trades st1)) \<and>
            profit (last (trades st1)) = (Close r - cur_entry_price st0) * cur_position st0)"
proof (intro conjI)
  from simulate_invariants(1) [OF assms]
  show "\<forall>t \<in> set (trades st). \<forall>x. exit_price t = Some x \<longrightarrow>
            profit t = (x - entry_price t) * position t"
    by (auto simp: profit_exact_def)
  from simulate_invariants(2) [OF assms]
  show "cur_capital st = initial_capital e + sum_list (map profit (trades st))"
    by (simp add: capital_ok_def)
  show "\<forall>st0 r st1. close_at st0 r = Inr st1 \<longrightarrow>
            cur_capital st1 = cur_capital st0 + profit (last (trades st1)) \<and>
            profit (last (trades st1)) = (Close r - cur_entry_price st0) * cur_position st0"
    by (auto simp: close_at_Inr closed_with_def)
qed

theorem profit_is_exact_witness:
  "\<exists>st. simulate (BacktestEngine 1000) (BaseStrategy ''S'' (fixed_frame two_trades) 1000)
           two_trades = Inr st \<and>
        map exit_price (trades st) = [Some 110, Some 121] \<and>
        map profit (trades st) = [(110 - 100) * 10, (121 - 110) * (100 / 11)] \<and>
        cur_capital st = initial_capital (BacktestEngine 1000 :: unit engine) + (100 + 100)"
  using profit_is_exact [OF simulate_two_trades] simulate_two_trades
  by (simp add: closed_with_def new_trade_def bar_at_def BacktestEngine_def)

subsection \<open>Signals that change nothing\<close>

text \<open>
  Claim C8. An Enter signal while the position is not zero, and an Exit signal while it is
  zero, leave every local variable and the ledger as they are. A step never shortens the
  ledger and never changes the entry fields of a trade already in it; it appends a trade only
  on an Enter signal met with position zero. Throughout the loop the position is zero or the
  quantity of the last trade of the ledger, whose entry price is the current entry price and
  which is still open.
\<close>

theorem enter_only_when_flat:
  "(Signal r = 1 \<and> cur_position st \<noteq> 0 \<longrightarrow> step s st r = Inr st) \<and>
   (Signal r = - 1 \<and> cur_position st = 0 \<longrightarrow> step s st r = Inr st) \<and>
   (step s st r = Inr st' \<longrightarrow>
      length (trades st) \<le> length (trades st') \<and>
      map entry_fields (take (length (trades st)) (trades st')) = map entry_fields (trades st) \<and>
      (length (trades st) < length (trades st') \<longrightarrow> Signal r = 1 \<and> cur_position st = 0)) \<and>
   (run_loop s (init_locals e) df = Inr st' \<longrightarrow>
      cur_position st' = 0 \<or>
      (trades st' \<noteq> [] \<and> position (last (trades st')) = cur_position st' \<and>
       entry_price (last (trades st')) = cur_entry_price st' \<and>
       exit_date (last (trades st')) = None))"
proof (intro conjI impI)
  assume "Signal r = 1 \<and> cur_position st \<noteq> 0"
  then show "step s st r = Inr st" by (simp add: step_enter_while_open)
next
  assume "Signal r = - 1 \<and> cur_position st = 0"
  then show "step s st r = Inr st" by (simp add: step_exit_while_flat)
next
  assume a: "step s st r = Inr st'"
  from step_keeps_entries [OF a]
  show "length (trades st) \<le> length (trades st')" by simp
  from step_keeps_entries [OF a]
  show "map entry_fields (take (length (trades st)) (trades st')) = map entry_fields (trades st)"
    by simp
  assume "length (trades st) < length (trades st')"
  with step_keeps_entries [OF a] show "Signal r = 1" and "cur_position st = 0" by simp_all
next
  assume "run_loop s (init_locals e) df = Inr st'"
  then have "tracks_last st'" using tracks_last_init by (rule run_loop_tracks_last)
  then show "cur_position st' = 0 \<or>
      (trades st' \<noteq> [] \<and> position (last (trades st')) = cur_position st' \<and>
       entry_price (last (trades st')) = cur_entry_price st' \<and>
       exit_date (last (trades st')) = None)"
    by (auto simp: tracks_last_def)
qed

theorem enter_only_when_flat_witness:
  "step (BaseStrategy ''S'' (fixed_frame two_trades) 1000) in_position (bar_at 1 105 1)
     = Inr in_position \<and>
   step (BaseStrategy ''S'' (fixed_frame two_trades) 1000)
     (init_locals (BacktestEngine 1000 :: unit engine)) (bar_at 0 100 (- 1))
     = Inr (init_locals (BacktestEngine 1000 :: unit engine)) \<and>
   step (BaseStrategy ''S'' (fixed_frame two_trades) 1000)
     (init_locals (BacktestEngine 1000 :: unit engine)) (bar_at 0 100 1) = Inr in_position \<and>
   length (trades (init_locals (BacktestEngine 1000 :: unit engine))) < length (trades in_position) \<and>
   Signal (bar_at 0 100 1) = 1 \<and>
   run_loop (BaseStrategy ''S'' (fixed_frame two_trades) 1000)
     (init_locals (BacktestEngine 1000 :: unit engine)) [bar_at 0 100 1, bar_at 1 105 1]
     = Inr in_position \<and>
   position (last (trades in_position)) = cur_position in_position \<and>
   cur_position in_position = 10"
  using
    enter_only_when_flat [of "bar_at 1 105 1" in_position
      "BaseStrategy ''S'' (fixed_frame two_trades) 1000"
      "init_locals (BacktestEngine 1000 :: unit engine)" "BacktestEngine 1000 :: unit engine"
      "[bar_at 0 100 1, bar_at 1 105 1]"]
    enter_only_when_flat [of "bar_at 0 100 (- 1)" "init_locals (BacktestEngine 1000 :: unit engine)"
      "BaseStrategy ''S'' (fixed_frame two_trades) 1000"
      "init_locals (BacktestEngine 1000 :: unit engine)" "BacktestEngine 1000 :: unit engine"
      "[bar_at 0 100 1, bar_at 1 105 1]"]
    enter_only_when_flat [of "bar_at 0 100 1" "init_locals (BacktestEngine 1000 :: unit engine)"
      "BaseStrategy ''S'' (fixed_frame two_trades) 1000"
      in_position "BacktestEngine 1000 :: unit engine"
      "[bar_at 0 100 1, bar_at 1 105 1]"]
  by (simp add: run_defs in_position_def)

subsection \<open>Runs without an Enter signal\<close>

lemma step_no_enter: "Signal r \<noteq> 1 \<Longrightarrow> cur_position st = 0 \<Longrightarrow> step s st r = Inr st"
  by (simp add: step_def)

lemma run_loop_no_enter:
  "\<forall>r \<in> set df. Signal r \<noteq> 1 \<Longrightarrow> cur_position st = 0 \<Longrightarrow> run_loop s st df = Inr st"
  by (induction df) (simp_all add: step_no_enter)

lemma simulate_no_enter:
  "\<forall>r \<in> set df. Signal r \<noteq> 1 \<Longrightarrow> simulate e s df = Inr (init_locals e)"
  by (simp add: simulate_def run_loop_no_enter init_locals_def close_open_position_def)

text \<open>
  Claim C9. When no row of the frame carries the Enter signal, the simulation ends with the
  locals it started from: an empty ledger and the initial capital. \<open>run_backtest\<close> then returns
  the canonical zero report, and the ledger stored for the run is empty.
\<close>

theorem no_enter_signal:
  assumes "\<forall>r \<in> set (generate_signals s data). Signal r \<noteq> 1"
  shows "simulate e s (generate_signals s data) = Inr (init_locals e) \<and>
         trades (init_locals e) = [] \<and>
         cur_capital (init_locals e) = initial_capital e \<and>
         fst (run_backtest e data s ticker) = Inr zero_report \<and>
         get_trade_details (snd (run_backtest e data s ticker)) ticker (class_name s) = []"
  using assms
  by (simp add: run_backtest_def Let_def simulate_no_enter init_locals_def
      calculate_statistics_def get_trade_details_def)

theorem no_enter_signal_witness:
  "simulate (BacktestEngine 1000)
     (BaseStrategy ''HoldOnly'' (fixed_frame [bar_at 0 100 0, bar_at 1 105 0, bar_at 2 110 (- 1)]) 1000)
     [bar_at 0 100 0, bar_at 1 105 0, bar_at 2 110 (- 1)]
     = Inr (init_locals (BacktestEngine 1000 :: unit engine)) \<and>
   fst (run_backtest (BacktestEngine 1000) ()
     (BaseStrategy ''HoldOnly'' (fixed_frame [bar_at 0 100 0, bar_at 1 105 0, bar_at 2 110 (- 1)]) 1000)
     ''TICK'') = Inr zero_report \<and>
   get_trade_details (snd (run_backtest (BacktestEngine 1000) ()
     (BaseStrategy ''HoldOnly'' (fixed_frame [bar_at 0 100 0, bar_at 1 105 0, bar_at 2 110 (- 1)]) 1000)
     ''TICK'')) ''TICK'' ''HoldOnly'' = []"
  using no_enter_signal [of
    "BaseStrategy ''HoldOnly'' (fixed_frame [bar_at 0 100 0, bar_at 1 105 0, bar_at 2 110 (- 1)]) 1000"
    "()" "BacktestEngine 1000" "''TICK''"]
  by (simp add: BaseStrategy_def fixed_frame_def bar_at_def)

subsection \<open>Statistics of a ledger without closed trades\<close>

text \<open>
  Claim C5. For a ledger that is empty or holds no closed trade, \<open>calculate_statistics\<close>
  returns the canonical zero report: it raises nothing, and the report is the same whatever
  the engine and the final capital are, so a second call returns it again.
\<close>

theorem calculate_statistics_no_closed_trades:
  "closed_trades ts = [] \<Longrightarrow>
     calculate_statistics e ts final_capital = Inr zero_report \<and>
     calculate_statistics e' ts final_capital' = calculate_statistics e ts final_capital"
  by (simp add: calculate_statistics_def)

theorem calculate_statistics_no_closed_trades_witness:
  "closed_trades [] = [] \<and>
   calculate_statistics (BacktestEngine 1000 :: unit engine) [] 1000 = Inr zero_report \<and>
   closed_trades [new_trade (bar_at 0 100 1) 0] = [] \<and>
   calculate_statistics (BacktestEngine 1000 :: unit engine) [new_trade (bar_at 0 100 1) 0] 1000
     = Inr zero_report \<and>
   calculate_statistics (BacktestEngine 5 :: unit engine) [new_trade (bar_at 0 100 1) 0] 7
     = calculate_statistics (BacktestEngine 1000 :: unit engine) [new_trade (bar_at 0 100 1) 0] 1000"
proof -
  have h0: "closed_trades [] = []"
    by (simp add: closed_trades_def)
  have h1: "closed_trades [new_trade (bar_at 0 100 1) 0] = []"
    by (simp add: closed_trades_def new_trade_def)
  show ?thesis
    using h0 h1
      calculate_statistics_no_closed_trades [OF h0, of "BacktestEngine 1000 :: unit engine" 1000
        "BacktestEngine 5 :: unit engine" 7]
      calculate_statistics_no_closed_trades [OF h1, of "BacktestEngine 1000 :: unit engine" 1000
        "BacktestEngine 5" 7]
    by simp
qed

lemmas stat_defs =
  run_backtest_def calculate_statistics_def calculate_max_drawdown_def closed_trades_def
  winning_trades_def losing_trades_def gross_profit_def gross_loss_def days_in_trade_def
  zero_report_def get_trade_details_def

subsection \<open>The maximum drawdown\<close>

lemma length_equity_curve: "length (equity_curve c ts) = length ts"
  by (induction ts arbitrary: c) simp_all

lemma equity_curve_nth:
  "i < length ts \<Longrightarrow> equity_curve c ts ! i = c + sum_list (map profit (take (Suc i) ts))"
proof (induction ts arbitrary: c i)
  case Nil
  then show ?case by simp
next
  case (Cons t ts)
  show ?case
  proof (cases i)
    case 0
    then show ?thesis by simp
  next
    case (Suc j)
    with Cons.prems have "j < length ts" by simp
    from Cons.IH [OF this, of "c + profit t"] Suc show ?thesis by simp
  qed
qed

lemma drawdown_walk_bounds:
  "0 < peak \<Longrightarrow> 0 \<le> m \<Longrightarrow>
     \<exists>d. drawdown_walk m peak es = Inr d \<and> m \<le> d \<and> (d = 0 \<longleftrightarrow> m = 0 \<and> sorted (peak # es))"
proof (induction es arbitrary: m peak)
  case Nil
  then show ?case by simp
next
  case (Cons x xs)
  define peak' where "peak' = (if x > peak then x else peak)"
  define dd where "dd = (peak' - x) / peak' * 100"
  have pos: "0 < peak'" using Cons.prems(1) by (simp add: peak'_def)
  have ge: "x \<le> peak'" by (simp add: peak'_def)
  have dd0: "0 \<le> dd" using pos ge by (simp add: dd_def)
  have ddz: "dd = 0 \<longleftrightarrow> peak \<le> x" using pos by (auto simp: dd_def peak'_def)
  have m': "0 \<le> max m dd" using Cons.prems(2) by simp
  from Cons.IH [OF pos m'] obtain d where
    w: "drawdown_walk (max m dd) peak' xs = Inr d" and le: "max m dd \<le> d"
    and z: "d = 0 \<longleftrightarrow> max m dd = 0 \<and> sorted (peak' # xs)"
    by blast
  have step: "drawdown_walk m peak (x # xs) = Inr d"
    using w pos by (simp add: peak'_def dd_def Let_def)
  have mz: "max m dd = 0 \<longleftrightarrow> m = 0 \<and> dd = 0"
    using Cons.prems(2) dd0 by (auto simp: max_def)
  have "d = 0 \<longleftrightarrow> m = 0 \<and> sorted (peak # x # xs)"
  proof (cases "peak \<le> x")
    case True
    then have "peak' = x" by (simp add: peak'_def)
    moreover have "sorted (peak # x # xs) \<longleftrightarrow> peak \<le> x \<and> sorted (x # xs)"
      by (rule sorted2)
    ultimately show ?thesis using z mz ddz True by simp
  next
    case False
    moreover have "sorted (peak # x # xs) \<longleftrightarrow> peak \<le> x \<and> sorted (x # xs)"
      by (rule sorted2)
    ultimately show ?thesis using z mz ddz by simp
  qed
  with step le show ?case by auto
qed

lemma running_peak_Cons:
  "running_peak peak (x # xs) (Suc i) = running_peak (if x > peak then x else peak) xs i"
  by (simp add: running_peak_def max_def)

lemma drawdown_at_Cons_Suc:
  "drawdown_at peak (x # xs) (Suc i) = drawdown_at (if x > peak then x else peak) xs i"
  by (simp only: drawdown_at_def running_peak_Cons nth_Cons_Suc)

lemma drawdown_at_Cons_0:
  "drawdown_at peak (x # xs) 0 =
     ((if x > peak then x else peak) - x) / (if x > peak then x else peak) * 100"
  by (simp add: drawdown_at_def running_peak_def max_def)

lemma drawdown_walk_spec:
  "0 < peak \<Longrightarrow>
     drawdown_walk m peak es = Inr (fold max (map (drawdown_at peak es) [0..<length es]) m)"
proof (induction es arbitrary: m peak)
  case Nil
  then show ?case by simp
next
  case (Cons x xs)
  define peak' where "peak' = (if x > peak then x else peak)"
  have pos: "0 < peak'" using Cons.prems by (simp add: peak'_def)
  have idx: "[0..<length (x # xs)] = 0 # map Suc [0..<length xs]"
    by (simp add: upt_conv_Cons map_Suc_upt del: upt_Suc)
  have tl: "map (drawdown_at peak (x # xs)) (map Suc [0..<length xs])
              = map (drawdown_at peak' xs) [0..<length xs]"
    by (simp add: drawdown_at_Cons_Suc peak'_def del: upt_Suc)
  have "fold max (map (drawdown_at peak (x # xs)) [0..<length (x # xs)]) m
          = fold max (map (drawdown_at peak' xs) [0..<length xs])
              (max (drawdown_at peak (x # xs) 0) m)"
    by (simp only: idx list.map fold_simps tl)
  also have "max (drawdown_at peak (x # xs) 0) m = max m ((peak' - x) / peak' * 100)"
    by (simp add: drawdown_at_Cons_0 peak'_def max.commute)
  finally have "fold max (map (drawdown_at peak (x # xs)) [0..<length (x # xs)]) m
      = fold max (map (drawdown_at peak' xs) [0..<length xs]) (max m ((peak' - x) / peak' * 100))" .
  moreover have "drawdown_walk m peak (x # xs)
      = drawdown_walk (max m ((peak' - x) / peak' * 100)) peak' xs"
    using pos by (simp add: peak'_def Let_def)
  ultimately show ?case using Cons.IH [OF pos] by simp
qed

lemma calculate_max_drawdown_defined:
  assumes "0 < initial_capital e"
  shows "\<exists>d. calculate_max_drawdown e ts = Inr d \<and> 0 \<le> d"
  using drawdown_walk_bounds [OF assms, of 0 "equity_curve (initial_capital e) ts"]
  by (auto simp: calculate_max_drawdown_def)

lemma calculate_max_drawdown_spec:
  assumes "0 < initial_capital e"
  shows "calculate_max_drawdown e ts
           = Inr (max_drawdown_spec (initial_capital e) (equity_curve (initial_capital e) ts))"
proof (cases "ts = []")
  case True
  then show ?thesis by (simp add: calculate_max_drawdown_def max_drawdown_spec_def)
next
  case False
  with drawdown_walk_spec [OF assms, of 0 "equity_curve (initial_capital e) ts"]
  show ?thesis by (simp add: calculate_max_drawdown_def max_drawdown_spec_def)
qed

lemma calculate_statistics_max_drawdown:
  assumes "closed_trades ts \<noteq> []" and "calculate_max_drawdown e (closed_trades ts) = Inr d"
  shows "map_sum id max_drawdown (calculate_statistics e ts final_capital) = Inr d"
proof -
  from assms(1) have "ts \<noteq> []" by (auto simp: closed_trades_def)
  with assms show ?thesis by (simp add: calculate_statistics_def)
qed

text \<open>
  Claim C7. For a positive initial capital, \<open>calculate_max_drawdown\<close> returns the maximum
  drawdown as the specification words it: the equity curve has one point per trade of the
  ledger it is given, the running total of the profits from the initial capital; the peak
  starts at the initial capital; the result is the largest \<open>(peak - equity) / peak * 100\<close>, and
  0 for an empty ledger. \<open>calculate_statistics\<close> reports this value for the closed trades of
  the ledger. The result is never negative, and it is 0 exactly when the sequence
  of the initial capital followed by the equity curve never decreases.
\<close>

theorem max_drawdown_properties:
  assumes "0 < initial_capital e"
  shows "calculate_max_drawdown e ts
           = Inr (max_drawdown_spec (initial_capital e) (equity_curve (initial_capital e) ts)) \<and>
         (closed_trades ts \<noteq> [] \<longrightarrow>
            map_sum id max_drawdown (calculate_statistics e ts final_capital)
              = calculate_max_drawdown e (closed_trades ts)) \<and>
         length (equity_curve (initial_capital e) ts) = length ts \<and>
         (\<forall>i < length ts. equity_curve (initial_capital e) ts ! i
            = initial_capital e + sum_list (map profit (take (Suc i) ts))) \<and>
         (ts = [] \<longrightarrow> calculate_max_drawdown e ts = Inr 0) \<and>
         0 \<le> max_drawdown_spec (initial_capital e) (equity_curve (initial_capital e) ts) \<and>
         (max_drawdown_spec (initial_capital e) (equity_curve (initial_capital e) ts) = 0
            \<longleftrightarrow> sorted (initial_capital e # equity_curve (initial_capital e) ts))"
proof -
  let ?c = "initial_capital e"
  let ?es = "equity_curve ?c ts"
  have c: "calculate_max_drawdown e ts = Inr (max_drawdown_spec ?c ?es)"
    using assms by (rule calculate_max_drawdown_spec)
  have r: "closed_trades ts \<noteq> [] \<longrightarrow>
            map_sum id max_drawdown (calculate_statistics e ts final_capital)
              = calculate_max_drawdown e (closed_trades ts)"
    using calculate_statistics_max_drawdown [of ts e _ final_capital]
      calculate_max_drawdown_spec [OF assms, of "closed_trades ts"]
    by simp
  have w: "drawdown_walk 0 ?c ?es = Inr (max_drawdown_spec ?c ?es)"
    using drawdown_walk_spec [OF assms, of 0 ?es] by (simp add: max_drawdown_spec_def)
  from drawdown_walk_bounds [OF assms, of 0 ?es] w
  have b: "0 \<le> max_drawdown_spec ?c ?es"
    and z: "max_drawdown_spec ?c ?es = 0 \<longleftrightarrow> sorted (?c # ?es)"
    by auto
  have n: "ts = [] \<longrightarrow> calculate_max_drawdown e ts = Inr 0"
    by (simp add: calculate_max_drawdown_def)
  have l: "length ?es = length ts" by (rule length_equity_curve)
  have q: "\<forall>i < length ts. ?es ! i = ?c + sum_list (map profit (take (Suc i) ts))"
    by (simp add: equity_curve_nth)
  from c r l q n b z show ?thesis by blast
qed

theorem max_drawdown_properties_witness:
  "0 < initial_capital (BacktestEngine 1000 :: unit engine) \<and>
   equity_curve 1000 scenario_E = [1100, 900, 1200] \<and>
   calculate_max_drawdown (BacktestEngine 1000 :: unit engine) scenario_E = Inr (200 / 11) \<and>
   map_sum id max_drawdown (calculate_statistics (BacktestEngine 1000 :: unit engine) scenario_E 1200)
     = Inr (200 / 11) \<and>
   max_drawdown_spec 1000 (equity_curve 1000 scenario_E) = 200 / 11 \<and>
   \<not> sorted (1000 # equity_curve 1000 scenario_E) \<and>
   calculate_max_drawdown (BacktestEngine 1000 :: unit engine) (take 1 scenario_E) = Inr 0 \<and>
   sorted (1000 # equity_curve 1000 (take 1 scenario_E))"
proof -
  have h: "0 < initial_capital (BacktestEngine 1000 :: unit engine)"
    by (simp add: BacktestEngine_def)
  have c: "initial_capital (BacktestEngine 1000 :: unit engine) = 1000"
    by (simp add: BacktestEngine_def)
  have e: "calculate_max_drawdown (BacktestEngine 1000 :: unit engine) scenario_E = Inr (200 / 11)"
    by (simp add: calculate_max_drawdown_def scenario_E_def closed_with_def new_trade_def
        BacktestEngine_def Let_def)
  have e1: "calculate_max_drawdown (BacktestEngine 1000 :: unit engine) (take 1 scenario_E) = Inr 0"
    by (simp add: calculate_max_drawdown_def scenario_E_def closed_with_def new_trade_def
        BacktestEngine_def Let_def)
  have q: "equity_curve 1000 scenario_E = [1100, 900, 1200]"
    by (simp add: scenario_E_def closed_with_def new_trade_def)
  have cl: "closed_trades scenario_E = scenario_E"
    by (simp add: closed_trades_def scenario_E_def closed_with_def)
  have ne: "scenario_E \<noteq> []"
    by (simp add: scenario_E_def)
  have q1: "equity_curve 1000 (take 1 scenario_E) = [1100]"
    by (simp add: scenario_E_def closed_with_def new_trade_def)
  show ?thesis
    using h e e1 q q1 ne
      max_drawdown_properties [OF h, of scenario_E 1200]
      max_drawdown_properties [OF h, of "take 1 scenario_E" 1200]
    by (simp add: c cl)
qed

subsection \<open>The profit factor\<close>

lemma sum_list_nonpos_zero:
  "\<forall>x \<in> set xs. x \<le> (0::real) \<Longrightarrow> sum_list xs = 0 \<longleftrightarrow> (\<forall>x \<in> set xs. x = 0)"
proof (induction xs)
  case Nil
  then show ?case by simp
next
  case (Cons x xs)
  then have "sum_list xs \<le> 0" by (simp add: sum_list_nonpos)
  with Cons show ?case by auto
qed

lemma gross_loss_zero:
  "gross_loss ts = 0 \<longleftrightarrow> losing_trades ts \<noteq> [] \<and> (\<forall>t \<in> set (losing_trades ts). profit t = 0)"
proof -
  have "\<forall>x \<in> set (map profit (losing_trades ts)). x \<le> 0"
    by (simp add: losing_trades_def)
  from sum_list_nonpos_zero [OF this] show ?thesis
    by (simp add: gross_loss_def)
qed

lemma scenario_D_statistics:
  assumes "map profit (closed_trades ts) = [50, 100]"
  shows "losing_trades ts = []" and "gross_profit ts = 150"
    and "real (length (winning_trades ts)) / real (length (closed_trades ts)) * 100 = 100"
proof -
  from assms obtain a b where c: "closed_trades ts = [a, b]" and p: "profit a = 50" "profit b = 100"
    by auto
  from c p show "losing_trades ts = []" by (simp add: losing_trades_def)
  from c p show "gross_profit ts = 150" by (simp add: gross_profit_def winning_trades_def)
  from c p show "real (length (winning_trades ts)) / real (length (closed_trades ts)) * 100 = 100"
    by (simp add: winning_trades_def)
qed

lemma simulate_scenario_D:
  "simulate (BacktestEngine 1000) (ten_shares scenario_D) scenario_D =
     Inr \<lparr>cur_position = 0, cur_capital = 1150,
          trades = [closed_with (new_trade (bar_at 0 100 1) 10) (bar_at 1 105 (- 1)) 105 50,
                    closed_with (new_trade (bar_at 2 100 1) 10) (bar_at 3 110 (- 1)) 110 100],
          cur_entry_price = 100\<rparr>"
  by (simp add: run_defs scenario_D_def ten_shares_def)

text \<open>
  Claim C6, as stated, fails: a trade that exits at its entry price has profit 0, counts as a
  losing trade (\<^verbatim>\<open>profit <= 0\<close>), makes the gross loss 0, and the guard of line 181 then
  returns \<^verbatim>\<open>float('inf')\<close>. The run below has one such closed trade.
\<close>

theorem profit_factor_infinite_counterexample:
  "map_sum id (\<lambda>st. map profit (closed_trades (trades st)))
     (simulate (BacktestEngine 1000) (BaseStrategy ''S'' (fixed_frame break_even) 1000) break_even)
     = Inr [0] \<and>
   map_sum id profit_factor
     (fst (run_backtest (BacktestEngine 1000) () (BaseStrategy ''S'' (fixed_frame break_even) 1000)
        ''TICK'')) = Inr Infinity"
  by (simp add: run_defs stat_defs break_even_def)

text \<open>
  Claim C6, amended. When there are closed trades and the initial capital is positive, the
  statistics are returned and: with no losing trade the gross loss is 1 and the profit factor
  is the gross profit; whenever the gross loss is not 0 the profit factor is the quotient;
  no division by zero occurs, and the profit factor is infinite exactly when there are losing
  trades and each of them has profit 0. For closed trades with profits 50 and 100 the profit
  factor is 150 and the win rate 100.
\<close>

theorem profit_factor_convention:
  assumes "closed_trades ts \<noteq> []" and "0 < initial_capital e"
  shows "\<exists>r. calculate_statistics e ts final_capital = Inr r \<and>
           (losing_trades ts = [] \<longrightarrow>
              gross_loss ts = 1 \<and> profit_factor r = Finite (gross_profit ts)) \<and>
           (gross_loss ts \<noteq> 0 \<longrightarrow> profit_factor r = Finite (gross_profit ts / gross_loss ts)) \<and>
           (profit_factor r = Infinity \<longleftrightarrow>
              losing_trades ts \<noteq> [] \<and> (\<forall>t \<in> set (losing_trades ts). profit t = 0)) \<and>
           (map profit (closed_trades ts) = [50, 100] \<longrightarrow>
              profit_factor r = Finite 150 \<and> win_rate r = 100)"
proof -
  from assms(1) have ne: "ts \<noteq> []" by (auto simp: closed_trades_def)
  from calculate_max_drawdown_defined [OF assms(2)] obtain d
    where d: "calculate_max_drawdown e (closed_trades ts) = Inr d" by blast
  define r where "r = \<lparr>net_profit = final_capital - initial_capital e,
                  total_trades = length (closed_trades ts),
                  win_rate =
                    real (length (winning_trades ts)) / real (length (closed_trades ts)) * 100,
                  profit_factor =
                    (if gross_loss ts \<noteq> 0 then Finite (gross_profit ts / gross_loss ts)
                     else Infinity),
                  max_drawdown = d,
                  avg_trade =
                    (final_capital - initial_capital e) / real (length (closed_trades ts)),
                  avg_bars_in_trade =
                    real_of_int (sum_list (map days_in_trade (closed_trades ts)))
                      / real (length (closed_trades ts))\<rparr>"
  have res: "calculate_statistics e ts final_capital = Inr r"
    using assms(1) ne d by (simp add: calculate_statistics_def r_def)
  have pf: "profit_factor r =
      (if gross_loss ts \<noteq> 0 then Finite (gross_profit ts / gross_loss ts) else Infinity)"
    and wr: "win_rate r =
      real (length (winning_trades ts)) / real (length (closed_trades ts)) * 100"
    by (simp_all add: r_def)
  have a: "losing_trades ts = [] \<longrightarrow>
              gross_loss ts = 1 \<and> profit_factor r = Finite (gross_profit ts)"
    by (simp add: pf gross_loss_def)
  have b: "gross_loss ts \<noteq> 0 \<longrightarrow> profit_factor r = Finite (gross_profit ts / gross_loss ts)"
    by (simp add: pf)
  have c: "profit_factor r = Infinity \<longleftrightarrow>
              losing_trades ts \<noteq> [] \<and> (\<forall>t \<in> set (losing_trades ts). profit t = 0)"
    using gross_loss_zero [of ts] by (simp add: pf)
  have dd: "map profit (closed_trades ts) = [50, 100] \<longrightarrow>
              profit_factor r = Finite 150 \<and> win_rate r = 100"
  proof
    assume h: "map profit (closed_trades ts) = [50, 100]"
    from scenario_D_statistics [OF h] show "profit_factor r = Finite 150 \<and> win_rate r = 100"
      by (simp add: pf wr gross_loss_def)
  qed
  from res a b c dd show ?thesis by blast
qed

theorem profit_factor_convention_witness:
  "closed_trades
     [closed_with (new_trade (bar_at 0 100 1) 10) (bar_at 1 105 (- 1)) 105 50,
      closed_with (new_trade (bar_at 2 100 1) 10) (bar_at 3 110 (- 1)) 110 100] \<noteq> [] \<and>
   0 < initial_capital (BacktestEngine 1000 :: unit engine) \<and>
   map_sum id (\<lambda>r. (profit_factor r, win_rate r))
     (calculate_statistics (BacktestEngine 1000 :: unit engine)
        [closed_with (new_trade (bar_at 0 100 1) 10) (bar_at 1 105 (- 1)) 105 50,
         closed_with (new_trade (bar_at 2 100 1) 10) (bar_at 3 110 (- 1)) 110 100] 1150)
     = Inr (Finite 150, 100) \<and>
   fst (run_backtest (BacktestEngine 1000) () (ten_shares scenario_D) ''TICK'') =
     Inr \<lparr>net_profit = 150, total_trades = 2, win_rate = 100, profit_factor = Finite 150,
          max_drawdown = 0, avg_trade = 75, avg_bars_in_trade = 1\<rparr>"
proof -
  let ?ts = "[closed_with (new_trade (bar_at 0 100 1) 10) (bar_at 1 105 (- 1)) 105 50,
      closed_with (new_trade (bar_at 2 100 1) 10) (bar_at 3 110 (- 1)) 110 100]"
  have h1: "closed_trades ?ts \<noteq> []"
    by (simp add: closed_trades_def closed_with_def)
  have h2: "0 < initial_capital (BacktestEngine 1000 :: unit engine)"
    by (simp add: BacktestEngine_def)
  have p: "map profit (closed_trades ?ts) = [50, 100]"
    by (simp add: closed_trades_def closed_with_def)
  from profit_factor_convention [OF h1 h2, of 1150] p
  have "map_sum id (\<lambda>r. (profit_factor r, win_rate r))
     (calculate_statistics (BacktestEngine 1000 :: unit engine) ?ts 1150) = Inr (Finite 150, 100)"
    by auto
  moreover have "fst (run_backtest (BacktestEngine 1000) () (ten_shares scenario_D) ''TICK'') =
     Inr \<lparr>net_profit = 150, total_trades = 2, win_rate = 100, profit_factor = Finite 150,
          max_drawdown = 0, avg_trade = 75, avg_bars_in_trade = 1\<rparr>"
    by (simp add: run_defs stat_defs scenario_D_def ten_shares_def)
  ultimately show ?thesis using h1 h2 by simp
qed

subsection \<open>Inputs that are not checked\<close>

lemma run_backtest_empty_frame:
  "generate_signals s data = [] \<Longrightarrow>
     fst (run_backtest e data s ticker) = Inr zero_report \<and>
     get_trade_details (snd (run_backtest e data s ticker)) ticker (class_name s) = []"
  by (simp add: run_backtest_def Let_def simulate_def init_locals_def close_open_position_def
      calculate_statistics_def get_trade_details_def)

text \<open>
  Claim C2, as stated, fails: \<open>run_backtest\<close> checks none of its inputs. With an empty frame
  and an initial capital of 0 it returns the canonical zero report, and with a capital of -5
  on the frame \<open>two_trades\<close> it returns a report as well.
\<close>

theorem run_backtest_returns_counterexample:
  "fst (run_backtest (BacktestEngine 0) () (BaseStrategy ''S'' (fixed_frame []) 0) ''TICK'')
     = Inr zero_report \<and>
   fst (run_backtest (BacktestEngine (- 5)) () (BaseStrategy ''S'' (fixed_frame two_trades) (- 5))
          ''TICK'')
     = Inr \<lparr>net_profit = - 1, total_trades = 2, win_rate = 0, profit_factor = Finite 0,
            max_drawdown = 0, avg_trade = - (1 / 2), avg_bars_in_trade = 1\<rparr>"
  by (simp add: run_defs stat_defs two_trades_def)

text \<open>
  Claim C2, amended. The signals are a column of the frame, so they cannot differ in number
  from the bars. For every engine, whatever its initial capital: on an empty frame
  \<open>run_backtest\<close> returns the canonical zero report and stores an empty ledger; on a frame
  whose closes are not 0 the simulation returns a ledger.
\<close>

theorem run_backtest_validates_nothing:
  "(generate_signals s data = [] \<longrightarrow>
      fst (run_backtest e data s ticker) = Inr zero_report \<and>
      get_trade_details (snd (run_backtest e data s ticker)) ticker (class_name s) = []) \<and>
   ((\<forall>r \<in> set (generate_signals s data). Close r \<noteq> 0) \<longrightarrow>
      (\<exists>st. simulate e s (generate_signals s data) = Inr st))"
  using run_backtest_empty_frame [of s data e ticker]
    simulate_defined [of "generate_signals s data" e s]
  by blast

theorem run_backtest_validates_nothing_witness:
  "generate_signals (BaseStrategy ''S'' (fixed_frame []) 0) () = [] \<and>
   fst (run_backtest (BacktestEngine 0) () (BaseStrategy ''S'' (fixed_frame []) 0) ''TICK'')
     = Inr zero_report \<and>
   get_trade_details
     (snd (run_backtest (BacktestEngine 0) () (BaseStrategy ''S'' (fixed_frame []) 0) ''TICK''))
     ''TICK'' ''S'' = [] \<and>
   (\<exists>st. simulate (BacktestEngine (- 5)) (BaseStrategy ''S'' (fixed_frame two_trades) (- 5))
           two_trades = Inr st)"
  using
    run_backtest_validates_nothing [of "BaseStrategy ''S'' (fixed_frame []) 0" "()"
      "BacktestEngine 0" "''TICK''"]
    run_backtest_validates_nothing [of "BaseStrategy ''S'' (fixed_frame two_trades) (- 5)" "()"
      "BacktestEngine (- 5)" "''TICK''"]
  by (simp add: BaseStrategy_def fixed_frame_def two_trades_def bar_at_def)

subsection \<open>The stored ledgers\<close>

lemma simulate_initial_capital_only:
  "initial_capital e' = initial_capital e \<Longrightarrow> simulate e' s df = simulate e s df"
  by (simp add: simulate_def init_locals_def)

text \<open>
  Claim C10. \<open>get_trade_details\<close> returns the empty list for a key that holds no ledger, as
  every key of a new engine does, and a run leaves the ledgers of all other keys as they
  were. After a run whose simulation returns, the ledger under the key of the run is the
  ledger of that run, whatever was stored there before.
\<close>

theorem trade_details_lookup:
  "(trade_details (e :: 'd engine) (ticker', name') = None \<longrightarrow>
      get_trade_details e ticker' name' = []) \<and>
   get_trade_details (BacktestEngine c :: 'd engine) ticker' name' = [] \<and>
   ((ticker', name') \<noteq> (ticker, class_name s) \<longrightarrow>
      get_trade_details (snd (run_backtest e data s ticker)) ticker' name'
        = get_trade_details e ticker' name') \<and>
   (simulate e s (generate_signals s data) = Inr st \<longrightarrow>
      get_trade_details (snd (run_backtest e data s ticker)) ticker (class_name s) = trades st)"
proof (intro conjI impI)
  assume "trade_details e (ticker', name') = None"
  then show "get_trade_details e ticker' name' = []" by (simp add: get_trade_details_def)
next
  show "get_trade_details (BacktestEngine c :: 'd engine) ticker' name' = []"
    by (simp add: get_trade_details_def BacktestEngine_def)
next
  assume "(ticker', name') \<noteq> (ticker, class_name s)"
  then show "get_trade_details (snd (run_backtest e data s ticker)) ticker' name'
        = get_trade_details e ticker' name'"
    by (auto simp: run_backtest_def Let_def get_trade_details_def split: sum.splits)
next
  assume "simulate e s (generate_signals s data) = Inr st"
  moreover have "simulate (e\<lparr>price_data := (price_data e)(ticker \<mapsto> data)\<rparr>) s (generate_signals s data)
      = simulate e s (generate_signals s data)"
    by (rule simulate_initial_capital_only) simp
  ultimately show "get_trade_details (snd (run_backtest e data s ticker)) ticker (class_name s) = trades st"
    by (simp add: run_backtest_def Let_def get_trade_details_def)
qed

theorem trade_details_lookup_witness:
  "get_trade_details (BacktestEngine 1000 :: unit engine) ''TICK'' ''S'' = [] \<and>
   get_trade_details
     (snd (run_backtest (BacktestEngine 1000) () (BaseStrategy ''S'' (fixed_frame two_trades) 1000)
        ''TICK'')) ''TICK'' ''S''
     = [closed_with (new_trade (bar_at 0 100 1) 10) (bar_at 1 110 (- 1)) 110 100,
        closed_with (new_trade (bar_at 2 110 1) (100 / 11)) (bar_at 3 121 0) 121 100] \<and>
   get_trade_details
     (snd (run_backtest (BacktestEngine 1000) () (BaseStrategy ''S'' (fixed_frame two_trades) 1000)
        ''TICK'')) ''OTHER'' ''S'' = [] \<and>
   get_trade_details
     (snd (run_backtest
        (snd (run_backtest (BacktestEngine 1000) ()
           (BaseStrategy ''S'' (fixed_frame two_trades) 1000) ''TICK''))
        () (BaseStrategy ''S'' (fixed_frame []) 1000) ''TICK'')) ''TICK'' ''S'' = []"
proof -
  let ?e = "BacktestEngine 1000 :: unit engine"
  let ?s = "BaseStrategy ''S'' (fixed_frame two_trades) 1000"
  let ?e1 = "snd (run_backtest ?e () ?s ''TICK'')"
  let ?s2 = "BaseStrategy ''S'' (fixed_frame []) 1000 :: unit strategy"
  have g: "generate_signals ?s () = two_trades" "class_name ?s = ''S''"
    by (simp_all add: BaseStrategy_def fixed_frame_def)
  have g2: "generate_signals ?s2 () = []" "class_name ?s2 = ''S''"
    by (simp_all add: BaseStrategy_def fixed_frame_def)
  have s2: "simulate ?e1 ?s2 [] = Inr (init_locals ?e1)"
    by (simp add: simulate_def close_open_position_def init_locals_def)
  have a: "get_trade_details ?e ''TICK'' ''S'' = []"
    using trade_details_lookup [of ?e "''TICK''" "''S''" 1000 "''TICK''" ?s "()" "init_locals ?e"]
    by simp
  have b: "get_trade_details ?e1 ''TICK'' ''S''
     = [closed_with (new_trade (bar_at 0 100 1) 10) (bar_at 1 110 (- 1)) 110 100,
        closed_with (new_trade (bar_at 2 110 1) (100 / 11)) (bar_at 3 121 0) 121 100]"
    using trade_details_lookup [of ?e "''TICK''" "''S''" 1000 "''TICK''" ?s "()"
        "\<lparr>cur_position = 100 / 11, cur_capital = 1200,
          trades = [closed_with (new_trade (bar_at 0 100 1) 10) (bar_at 1 110 (- 1)) 110 100,
                    closed_with (new_trade (bar_at 2 110 1) (100 / 11)) (bar_at 3 121 0) 121 100],
          cur_entry_price = 110\<rparr>"]
      simulate_two_trades g
    by simp
  have c: "get_trade_details ?e1 ''OTHER'' ''S'' = get_trade_details ?e ''OTHER'' ''S''"
    using trade_details_lookup [of ?e "''OTHER''" "''S''" 1000 "''TICK''" ?s "()" "init_locals ?e"] g
    by simp
  have c0: "get_trade_details ?e ''OTHER'' ''S'' = []"
    using trade_details_lookup [of ?e "''OTHER''" "''S''" 1000 "''TICK''" ?s "()" "init_locals ?e"]
    by simp
  have d: "get_trade_details (snd (run_backtest ?e1 () ?s2 ''TICK'')) ''TICK'' ''S'' = []"
    using trade_details_lookup [of ?e1 "''TICK''" "''S''" 1000 "''TICK''" ?s2 "()" "init_locals ?e1"]
      s2 g2
    by (simp add: init_locals_def)
  from a b c c0 d show ?thesis by simp
qed

subsection \<open>Entries of size zero\<close>

text \<open>
  Claim C1 holds for every run in which each honoured entry gets a size other than 0
  (\<open>all_closed_if_sized_nonzero\<close>). It fails on the code when \<^verbatim>\<open>get_position_size\<close> returns
  0: the trade is appended to the ledger, the position stays 0, so neither an Exit signal
  nor the close at the end of the series (both guarded by \<^verbatim>\<open>position != 0\<close>) ever sets its
  exit fields. Here the strategy sizes at 0 percent of equity; the run returns the zero report
  and stores a ledger whose only trade has no exit date and no exit price.
\<close>

theorem zero_size_trade_stays_open:
  "fst (run_backtest (BacktestEngine 1000) () (zero_percent never_sized) ''TICK'') = Inr zero_report \<and>
   map (\<lambda>t. (position t, exit_date t, exit_price t))
     (get_trade_details
        (snd (run_backtest (BacktestEngine 1000) () (zero_percent never_sized) ''TICK''))
        ''TICK'' ''ZeroPercent'')
     = [(0, None, None)]"
  by (simp add: run_defs stat_defs zero_percent_def never_sized_def)

subsection \<open>The capital that sizes an entry\<close>

lemma entry_quantity:
  assumes "step s st r = Inr st'" and "length (trades st) < length (trades st')"
  shows "get_position_size s (Close r) = Inr (position (last (trades st')))"
  using assms(1)
proof (cases rule: step_Inr_cases)
  case (enter q)
  then show ?thesis by (simp add: new_trade_def)
next
  case exit
  with assms(2) show ?thesis by simp
next
  case hold
  with assms(2) show ?thesis by simp
qed

lemma step_ignores_current_capital:
  "Signal r = 1 \<Longrightarrow> cur_position st = 0 \<Longrightarrow>
     map_sum id (\<lambda>x. (cur_position x, last (trades x))) (step s (st\<lparr>cur_capital := c\<rparr>) r)
       = map_sum id (\<lambda>x. (cur_position x, last (trades x))) (step s st r)"
  by (simp add: step_def split: sum.splits)

text \<open>
  Claim C3 fails on the code: \<^verbatim>\<open>get_position_size\<close> reads the attribute \<^verbatim>\<open>capital\<close> of the
  strategy, which is set once in \<^verbatim>\<open>__init__\<close>, and the engine never passes its own capital
  on. On \<open>two_trades\<close> with 100 percent of equity the first trade closes with a profit of 100,
  so the capital of the simulator is 1100 when the second Enter is honoured at a close of 110;
  sizing on that capital would give 10 units, the code opens 1000 / 110 = 100 / 11.
\<close>

theorem stale_capital_sizing:
  "map_sum id (\<lambda>st. (cur_position st, cur_capital st))
     (run_loop (BaseStrategy ''S'' (fixed_frame two_trades) 1000)
        (init_locals (BacktestEngine 1000 :: unit engine)) (take 2 two_trades))
     = Inr (0, 1100) \<and>
   map_sum id (\<lambda>st. map position (trades st))
     (run_loop (BaseStrategy ''S'' (fixed_frame two_trades) 1000)
        (init_locals (BacktestEngine 1000 :: unit engine)) (take 3 two_trades))
     = Inr [10, 100 / 11] \<and>
   get_position_size ((BaseStrategy ''S'' (fixed_frame two_trades) 1000)\<lparr>capital := 1100\<rparr>) 110
     = Inr 10 \<and>
   map_sum id (\<lambda>st. map position (trades st))
     (simulate (BacktestEngine 1000) (BaseStrategy ''S'' (fixed_frame two_trades) 1000) two_trades)
     = Inr [10, 100 / 11]"
  by (simp add: run_defs two_trades_def)

end
